theory Spec2Isabelle
  imports
    Main
    "HOL-Library.Word"
    "HOL-Library.Multiset"
    "HOL-Library.Char_ord"
    "HOL-Library.List_Lexorder"
    "HOL-Library.Product_Lexorder"
begin

unbundle bit_operations_syntax

section \<open>Python values and exceptions\<close>

text \<open>
  The exceptions that the modelled code of \<^verbatim>\<open>brec/utils_constants.py\<close> and
  \<^verbatim>\<open>brec/common_subrecords.py\<close> raises or suppresses. \<open>OtherError\<close> stands for
  any exception class that the code neither raises itself nor names in a handler.
\<close>

datatype py_error =
    TypeError | AttributeError | IndexError | StateError
  | NotImplementedError | ModError | OtherError

text \<open>
  Indexing a tuple with a Python integer: negative indices count from the end, an
  index out of range raises \<open>IndexError\<close>.
\<close>

definition py_getitem :: "'a list \<Rightarrow> int \<Rightarrow> py_error + 'a" where
  "py_getitem xs i =
     (if 0 \<le> i \<and> i < int (length xs) then Inr (xs ! nat i)
      else if i < 0 \<and> - int (length xs) \<le> i then Inr (xs ! nat (i + int (length xs)))
      else Inl IndexError)"

section \<open>Form ids\<close>

text \<open>
  The value of the property \<open>long_fid\<close>: the base class returns the short integer
  itself, the classes built by \<open>from_masters\<close> and \<open>from_tuple\<close> return a tuple of a
  plugin name (\<open>FName\<close>, kept as the type parameter \<open>'n\<close>) and an object index.
\<close>

datatype 'n long_val = LInt int | LTuple 'n int

text \<open>
  The classes of form ids. A class made by \<open>from_masters\<close> is determined by the two
  values its body closes over (\<open>augmented_masters\<close> and \<open>in_overlay_plugin\<close>), one made
  by \<open>from_tuple\<close> by \<open>fid_tuple[0]\<close>. \<open>Tes4Fid\<close> and \<open>DummyFid\<close> are the module's
  two named subclasses.
\<close>

datatype 'n fid_class =
    FormId_base
  | FormID_masters "'n list" bool
  | FormId_tuple 'n
  | Tes4Fid
  | DummyFid

text \<open>An instance: its class and the attribute \<open>short_fid\<close> set by \<open>__init__\<close>.\<close>

datatype 'n formid = FormId (fid_cls: "'n fid_class") (short_fid: int)

text \<open>
  The objects that the modelled comparisons and packers meet: integers, byte strings,
  \<open>None\<close>, form ids and the one instance \<open>NONE_FID\<close> of \<open>_NoneFid\<close>.
\<close>

datatype 'n pyobj =
    PInt int
  | PBytes "8 word list"
  | PNone
  | PFid "'n formid"
  | PNoneFid

text \<open>
  The module globals that the methods read. \<open>short_mapper\<close> is \<open>None\<close> or a callable
  set by the plugin output context; the callable is not part of the modelled files, so
  it is a parameter, applied to an object and returning an integer or raising.
  \<open>master_long\<close> is the outcome of \<open>bush.game.master_fid(0).long_fid\<close>, which
  \<open>_Tes4Fid.long_fid\<close> returns and which is not part of the modelled files either.
\<close>

record 'n globals =
  short_mapper :: "('n pyobj \<Rightarrow> py_error + int) option"
  master_long :: "py_error + 'n long_val"

text \<open>
  \<open>FormId._form_id_classes\<close>. The lookup in \<open>from_masters\<close> uses the key
  \<open>(augmented_masters, in_overlay_plugin)\<close>, the store uses \<open>augmented_masters\<close> alone,
  so the dictionary has keys of two shapes.
\<close>

datatype 'n class_key = Key_pair "'n list" bool | Key_masters "'n list"

type_synonym 'n class_cache = "'n class_key \<rightharpoonup> 'n fid_class"

definition from_masters ::
  "'n class_cache \<Rightarrow> 'n list \<Rightarrow> bool \<Rightarrow> 'n fid_class \<times> 'n class_cache" where
  "from_masters cache augmented_masters in_overlay_plugin =
     (case cache (Key_pair augmented_masters in_overlay_plugin) of
        Some form_id_type \<Rightarrow> (form_id_type, cache)
      | None \<Rightarrow>
          (let form_id_type = FormID_masters augmented_masters in_overlay_plugin
           in (form_id_type, cache(Key_masters augmented_masters \<mapsto> form_id_type))))"

text \<open>
  The invariant of \<open>_form_id_classes\<close>: \<open>from_masters\<close> is its only writer and never
  stores under a pair key, so no pair key is ever present.
\<close>

definition cache_inv :: "'n class_cache \<Rightarrow> bool" where
  "cache_inv cache = (\<forall>ms ov. cache (Key_pair ms ov) = None)"

definition object_dex :: "'n formid \<Rightarrow> int" where
  "object_dex self = short_fid self AND 0x00FFFFFF"

text \<open>\<open>mod_dex\<close> is overridden to raise by the classes of \<open>from_tuple\<close>.\<close>

definition mod_dex :: "'n formid \<Rightarrow> py_error + int" where
  "mod_dex self =
     (case fid_cls self of
        FormId_tuple n \<Rightarrow> Inl StateError
      | _ \<Rightarrow> Inr (drop_bit 24 (short_fid self)))"

text \<open>The body of \<open>long_fid\<close> in a class of \<open>from_masters\<close>, up to the \<open>except IndexError\<close>.\<close>

definition masters_long_try :: "'n list \<Rightarrow> bool \<Rightarrow> 'n formid \<Rightarrow> py_error + 'n long_val" where
  "masters_long_try masters overlay self =
     (case mod_dex self of
        Inl e \<Rightarrow> Inl e
      | Inr md \<Rightarrow>
          (if overlay \<and> md \<ge> int (length masters) - 1
           then (case py_getitem masters 0 of
                   Inl e \<Rightarrow> Inl e
                 | Inr m \<Rightarrow> Inr (LTuple m (short_fid self AND 0xFFFFFF)))
           else (case py_getitem masters md of
                   Inl e \<Rightarrow> Inl e
                 | Inr m \<Rightarrow> Inr (LTuple m (short_fid self AND 0xFFFFFF)))))"

definition long_fid :: "'n globals \<Rightarrow> 'n formid \<Rightarrow> py_error + 'n long_val" where
  "long_fid g self =
     (case fid_cls self of
        FormId_base \<Rightarrow> Inr (LInt (short_fid self))
      | FormId_tuple n \<Rightarrow> Inr (LTuple n (short_fid self))
      | Tes4Fid \<Rightarrow> master_long g
      | DummyFid \<Rightarrow> master_long g
      | FormID_masters masters overlay \<Rightarrow>
          (case masters_long_try masters overlay self of
             Inl e \<Rightarrow>
               (if e = IndexError
                then (case py_getitem masters (- 1) of
                        Inl e' \<Rightarrow> Inl e'
                      | Inr m \<Rightarrow> Inr (LTuple m (short_fid self AND 0xFFFFFF)))
                else Inl e)
           | Inr v \<Rightarrow> Inr v))"

text \<open>
  \<open>mod_fn\<close>: \<open>self.long_fid[0]\<close>, where subscripting an integer raises \<open>TypeError\<close>,
  which the handler turns into \<open>StateError\<close>.
\<close>

definition mod_fn :: "'n globals \<Rightarrow> 'n formid \<Rightarrow> py_error + 'n" where
  "mod_fn g self =
     (case (case long_fid g self of
              Inl e \<Rightarrow> Inl e
            | Inr (LInt i) \<Rightarrow> Inl TypeError
            | Inr (LTuple n i) \<Rightarrow> Inr n) of
        Inl e \<Rightarrow> (if e = TypeError then Inl StateError else Inl e)
      | Inr n \<Rightarrow> Inr n)"

definition is_null :: "'n formid \<Rightarrow> bool" where
  "is_null self = (object_dex self = 0)"

section \<open>Comparisons\<close>

datatype cmp_op = Lt | Le | Gt | Ge | Eq | Ne

text \<open>What a rich comparison method returns.\<close>

datatype cmp_result = RBool bool | NotImplemented

fun cmp_values :: "cmp_op \<Rightarrow> 'a::linorder \<Rightarrow> 'a \<Rightarrow> bool" where
  "cmp_values Lt a b = (a < b)"
| "cmp_values Le a b = (a \<le> b)"
| "cmp_values Gt a b = (a > b)"
| "cmp_values Ge a b = (a \<ge> b)"
| "cmp_values Eq a b = (a = b)"
| "cmp_values Ne a b = (a \<noteq> b)"

text \<open>
  Comparing two tuples \<open>(FName, int)\<close>: the first pair of items that are not equal
  decides; when there is none the (equal) lengths are compared.
\<close>

definition tuple_cmp :: "cmp_op \<Rightarrow> 'n::linorder \<times> int \<Rightarrow> 'n \<times> int \<Rightarrow> bool" where
  "tuple_cmp op a b =
     (if fst a \<noteq> fst b then cmp_values op (fst a) (fst b)
      else if snd a \<noteq> snd b then cmp_values op (snd a) (snd b)
      else cmp_values op (2::nat) 2)"

text \<open>
  \<open>x OP y\<close> for two values of \<open>long_fid\<close>. An integer and a tuple are never equal,
  and ordering them raises \<open>TypeError\<close>.
\<close>

fun long_cmp :: "cmp_op \<Rightarrow> 'n::linorder long_val \<Rightarrow> 'n long_val \<Rightarrow> py_error + bool" where
  "long_cmp op (LInt a) (LInt b) = Inr (cmp_values op a b)"
| "long_cmp op (LTuple n i) (LTuple m j) = Inr (tuple_cmp op (n, i) (m, j))"
| "long_cmp op x y =
     (case op of Eq \<Rightarrow> Inr False | Ne \<Rightarrow> Inr True | _ \<Rightarrow> Inl TypeError)"

text \<open>\<open>other.long_fid\<close>: only form ids have the attribute.\<close>

definition getattr_long_fid :: "'n globals \<Rightarrow> 'n pyobj \<Rightarrow> py_error + 'n long_val" where
  "getattr_long_fid g other =
     (case other of PFid f \<Rightarrow> long_fid g f | _ \<Rightarrow> Inl AttributeError)"

text \<open>\<open>self.long_fid OP other.long_fid\<close>, the left operand evaluated first.\<close>

definition long_pair_cmp ::
  "cmp_op \<Rightarrow> 'n::linorder globals \<Rightarrow> 'n formid \<Rightarrow> 'n pyobj \<Rightarrow> py_error + bool" where
  "long_pair_cmp op g self other =
     (case long_fid g self of
        Inl e \<Rightarrow> Inl e
      | Inr x \<Rightarrow>
          (case getattr_long_fid g other of
             Inl e \<Rightarrow> Inl e
           | Inr y \<Rightarrow> long_cmp op x y))"

text \<open>
  The end of every comparison method of \<open>FormId\<close>:
  \<^verbatim>\<open>if isinstance(self.long_fid, type(other)): return self.long_fid OP other\<close>,
  then \<^verbatim>\<open>return NotImplemented\<close>. Among the objects modelled, only an integer
  \<open>long_fid\<close> and an integer \<open>other\<close> pass the test.
\<close>

definition long_vs_other ::
  "cmp_op \<Rightarrow> 'n globals \<Rightarrow> 'n formid \<Rightarrow> 'n pyobj \<Rightarrow> py_error + cmp_result" where
  "long_vs_other op g self other =
     (case long_fid g self of
        Inl e \<Rightarrow> Inl e
      | Inr x \<Rightarrow>
          (case (x, other) of
             (LInt a, PInt b) \<Rightarrow> Inr (RBool (cmp_values op a b))
           | _ \<Rightarrow> Inr NotImplemented))"

text \<open>
  \<open>__eq__\<close> and \<open>__ne__\<close>: the comparison of the long forms under
  \<open>suppress(AttributeError)\<close>, then the test \<open>other is None\<close> (answering \<open>False\<close> for
  \<open>__eq__\<close> and \<open>True\<close> for \<open>__ne__\<close>), then the common end.
\<close>

definition FormId_eq_ne ::
  "cmp_op \<Rightarrow> 'n::linorder globals \<Rightarrow> 'n formid \<Rightarrow> 'n pyobj \<Rightarrow> py_error + cmp_result" where
  "FormId_eq_ne op g self other =
     (case long_pair_cmp op g self other of
        Inr b \<Rightarrow> Inr (RBool b)
      | Inl e \<Rightarrow>
          (if e \<noteq> AttributeError then Inl e
           else (case other of
                   PNone \<Rightarrow> Inr (RBool (op = Ne))
                 | _ \<Rightarrow> long_vs_other op g self other)))"

text \<open>
  \<open>short_mapper(self) OP short_mapper(other)\<close>; calling \<open>None\<close> raises \<open>TypeError\<close>.
\<close>

definition mapped_cmp ::
  "cmp_op \<Rightarrow> 'n globals \<Rightarrow> 'n formid \<Rightarrow> 'n pyobj \<Rightarrow> py_error + bool" where
  "mapped_cmp op g self other =
     (case short_mapper g of
        None \<Rightarrow> Inl TypeError
      | Some sm \<Rightarrow>
          (case sm (PFid self) of
             Inl e \<Rightarrow> Inl e
           | Inr x \<Rightarrow>
               (case sm other of
                  Inl e \<Rightarrow> Inl e
                | Inr y \<Rightarrow> Inr (cmp_values op x y))))"

text \<open>
  \<open>__lt__\<close>, \<open>__ge__\<close>, \<open>__gt__\<close> and \<open>__le__\<close>, which differ in the operator only:
  the mapped comparison under \<open>suppress(TypeError)\<close>, the comparison of the long forms
  under \<open>suppress(AttributeError)\<close>, then the common end.
\<close>

definition FormId_order ::
  "cmp_op \<Rightarrow> 'n::linorder globals \<Rightarrow> 'n formid \<Rightarrow> 'n pyobj \<Rightarrow> py_error + cmp_result" where
  "FormId_order op g self other =
     (case mapped_cmp op g self other of
        Inr b \<Rightarrow> Inr (RBool b)
      | Inl e \<Rightarrow>
          (if e \<noteq> TypeError then Inl e
           else (case long_pair_cmp op g self other of
                   Inr b \<Rightarrow> Inr (RBool b)
                 | Inl e' \<Rightarrow>
                     (if e' \<noteq> AttributeError then Inl e'
                      else long_vs_other op g self other))))"

definition FormId_lt ::
  "'n::linorder globals \<Rightarrow> 'n formid \<Rightarrow> 'n pyobj \<Rightarrow> py_error + cmp_result" where
  "FormId_lt = FormId_order Lt"

definition FormId_le ::
  "'n::linorder globals \<Rightarrow> 'n formid \<Rightarrow> 'n pyobj \<Rightarrow> py_error + cmp_result" where
  "FormId_le = FormId_order Le"

definition FormId_gt ::
  "'n::linorder globals \<Rightarrow> 'n formid \<Rightarrow> 'n pyobj \<Rightarrow> py_error + cmp_result" where
  "FormId_gt = FormId_order Gt"

definition FormId_ge ::
  "'n::linorder globals \<Rightarrow> 'n formid \<Rightarrow> 'n pyobj \<Rightarrow> py_error + cmp_result" where
  "FormId_ge = FormId_order Ge"

definition FormId_eq ::
  "'n::linorder globals \<Rightarrow> 'n formid \<Rightarrow> 'n pyobj \<Rightarrow> py_error + cmp_result" where
  "FormId_eq = FormId_eq_ne Eq"

definition FormId_ne ::
  "'n::linorder globals \<Rightarrow> 'n formid \<Rightarrow> 'n pyobj \<Rightarrow> py_error + cmp_result" where
  "FormId_ne = FormId_eq_ne Ne"

fun FormId_richcmp ::
  "cmp_op \<Rightarrow> 'n::linorder globals \<Rightarrow> 'n formid \<Rightarrow> 'n pyobj \<Rightarrow> py_error + cmp_result" where
  "FormId_richcmp Lt = FormId_lt"
| "FormId_richcmp Le = FormId_le"
| "FormId_richcmp Gt = FormId_gt"
| "FormId_richcmp Ge = FormId_ge"
| "FormId_richcmp Eq = FormId_eq"
| "FormId_richcmp Ne = FormId_ne"

text \<open>The three methods of \<open>_NoneFid\<close> that do not use an operator themselves.\<close>

definition is_FormId :: "'n pyobj \<Rightarrow> bool" where
  "is_FormId other = (case other of PFid f \<Rightarrow> True | _ \<Rightarrow> False)"

definition is_NoneFid :: "'n pyobj \<Rightarrow> bool" where
  "is_NoneFid other = (case other of PNoneFid \<Rightarrow> True | _ \<Rightarrow> False)"

definition NoneFid_lt :: "'n pyobj \<Rightarrow> cmp_result" where
  "NoneFid_lt other =
     (if is_FormId other \<or> is_NoneFid other then RBool False else NotImplemented)"

definition NoneFid_gt :: "'n pyobj \<Rightarrow> cmp_result" where
  "NoneFid_gt other =
     (if is_FormId other then RBool True
      else if is_NoneFid other then RBool False
      else NotImplemented)"

definition NoneFid_eq :: "'n pyobj \<Rightarrow> cmp_result" where
  "NoneFid_eq other =
     (if is_FormId other then RBool False
      else if is_NoneFid other then RBool True
      else NotImplemented)"

text \<open>The comparison methods of the built-in types \<open>int\<close>, \<open>bytes\<close> and \<open>NoneType\<close>.\<close>

definition int_richcmp :: "cmp_op \<Rightarrow> int \<Rightarrow> 'n pyobj \<Rightarrow> cmp_result" where
  "int_richcmp op a other =
     (case other of PInt b \<Rightarrow> RBool (cmp_values op a b) | _ \<Rightarrow> NotImplemented)"

definition bytes_richcmp :: "cmp_op \<Rightarrow> 8 word list \<Rightarrow> 'n pyobj \<Rightarrow> cmp_result" where
  "bytes_richcmp op a other =
     (case other of PBytes b \<Rightarrow> RBool (cmp_values op a b) | _ \<Rightarrow> NotImplemented)"

definition none_richcmp :: "cmp_op \<Rightarrow> 'n pyobj \<Rightarrow> cmp_result" where
  "none_richcmp op other =
     (case op of
        Eq \<Rightarrow> (case other of PNone \<Rightarrow> RBool True | _ \<Rightarrow> NotImplemented)
      | Ne \<Rightarrow> (case other of PNone \<Rightarrow> RBool False | _ \<Rightarrow> NotImplemented)
      | _ \<Rightarrow> NotImplemented)"

text \<open>
  The types of the objects and the subclass relation between them: the classes of
  \<open>from_masters\<close> and \<open>from_tuple\<close> and \<open>_Tes4Fid\<close> derive from \<open>FormId\<close>, \<open>_DummyFid\<close>
  derives from \<open>_Tes4Fid\<close>, \<open>_NoneFid\<close> derives from nothing modelled.
\<close>

datatype 'n pytype = T_int | T_bytes | T_NoneType | T_NoneFid | T_fid "'n fid_class"

fun type_of :: "'n pyobj \<Rightarrow> 'n pytype" where
  "type_of (PInt i) = T_int"
| "type_of (PBytes b) = T_bytes"
| "type_of PNone = T_NoneType"
| "type_of PNoneFid = T_NoneFid"
| "type_of (PFid f) = T_fid (fid_cls f)"

definition is_proper_subclass :: "'n pytype \<Rightarrow> 'n pytype \<Rightarrow> bool" where
  "is_proper_subclass t1 t2 =
     (case t2 of
        T_fid c2 \<Rightarrow>
          (case c2 of
             FormId_base \<Rightarrow>
               (case t1 of
                  T_fid c1 \<Rightarrow> (case c1 of FormId_base \<Rightarrow> False | _ \<Rightarrow> True)
                | _ \<Rightarrow> False)
           | Tes4Fid \<Rightarrow>
               (case t1 of
                  T_fid c1 \<Rightarrow> (case c1 of DummyFid \<Rightarrow> True | _ \<Rightarrow> False)
                | _ \<Rightarrow> False)
           | _ \<Rightarrow> False)
      | _ \<Rightarrow> False)"

fun swapped_op :: "cmp_op \<Rightarrow> cmp_op" where
  "swapped_op Lt = Gt"
| "swapped_op Le = Ge"
| "swapped_op Gt = Lt"
| "swapped_op Ge = Le"
| "swapped_op Eq = Eq"
| "swapped_op Ne = Ne"

text \<open>
  \<open>v is w\<close>, which the interpreter falls back on for \<open>==\<close> and \<open>!=\<close> when both
  operands answer \<open>NotImplemented\<close>. That happens for operands of different types
  only, which are never the same object; \<open>None\<close> and \<open>NONE_FID\<close> are single objects.
\<close>

definition py_is :: "'n pyobj \<Rightarrow> 'n pyobj \<Rightarrow> bool" where
  "py_is v w =
     (case (v, w) of (PNone, PNone) \<Rightarrow> True | (PNoneFid, PNoneFid) \<Rightarrow> True | _ \<Rightarrow> False)"

fun is_derived_op :: "cmp_op \<Rightarrow> nat" where
  "is_derived_op Le = 1"
| "is_derived_op Ge = 1"
| "is_derived_op Ne = 1"
| "is_derived_op op = 0"

text \<open>
  \<open>tp_richcompare\<close> is the comparison method of the left operand's type. The methods
  \<open>__le__\<close>, \<open>__ge__\<close> and \<open>__ne__\<close> of \<open>_NoneFid\<close> are \<open>not self > other\<close>,
  \<open>not self < other\<close> and \<open>not self == other\<close>, so they go through the operator.

  \<open>py_compare\<close> is the operator \<open>v OP w\<close> as the interpreter evaluates it: the
  reflected method of the right operand first when its type is a proper subclass of the
  left operand's, then the method of the left operand, then the reflected method of the
  right operand; when every answer is \<open>NotImplemented\<close>, identity for \<open>==\<close> and
  \<open>!=\<close> and \<open>TypeError\<close> for the orderings.
\<close>

function tp_richcompare ::
    "cmp_op \<Rightarrow> 'n::linorder globals \<Rightarrow> 'n pyobj \<Rightarrow> 'n pyobj \<Rightarrow> py_error + cmp_result"
  and py_compare ::
    "cmp_op \<Rightarrow> 'n::linorder globals \<Rightarrow> 'n pyobj \<Rightarrow> 'n pyobj \<Rightarrow> py_error + bool"
where
  "tp_richcompare op g (PInt a) other = Inr (int_richcmp op a other)"
| "tp_richcompare op g (PBytes a) other = Inr (bytes_richcmp op a other)"
| "tp_richcompare op g PNone other = Inr (none_richcmp op other)"
| "tp_richcompare op g (PFid f) other = FormId_richcmp op g f other"
| "tp_richcompare Lt g PNoneFid other = Inr (NoneFid_lt other)"
| "tp_richcompare Gt g PNoneFid other = Inr (NoneFid_gt other)"
| "tp_richcompare Eq g PNoneFid other = Inr (NoneFid_eq other)"
| "tp_richcompare Le g PNoneFid other =
     (case py_compare Gt g PNoneFid other of
        Inl e \<Rightarrow> Inl e | Inr b \<Rightarrow> Inr (RBool (\<not> b)))"
| "tp_richcompare Ge g PNoneFid other =
     (case py_compare Lt g PNoneFid other of
        Inl e \<Rightarrow> Inl e | Inr b \<Rightarrow> Inr (RBool (\<not> b)))"
| "tp_richcompare Ne g PNoneFid other =
     (case py_compare Eq g PNoneFid other of
        Inl e \<Rightarrow> Inl e | Inr b \<Rightarrow> Inr (RBool (\<not> b)))"
| "py_compare op g v w =
     (let checked_reverse_op = is_proper_subclass (type_of w) (type_of v)
      in case (if checked_reverse_op then tp_richcompare (swapped_op op) g w v
               else Inr NotImplemented) of
           Inl e \<Rightarrow> Inl e
         | Inr (RBool b) \<Rightarrow> Inr b
         | Inr NotImplemented \<Rightarrow>
             (case tp_richcompare op g v w of
                Inl e \<Rightarrow> Inl e
              | Inr (RBool b) \<Rightarrow> Inr b
              | Inr NotImplemented \<Rightarrow>
                  (case (if checked_reverse_op then Inr NotImplemented
                         else tp_richcompare (swapped_op op) g w v) of
                     Inl e \<Rightarrow> Inl e
                   | Inr (RBool b) \<Rightarrow> Inr b
                   | Inr NotImplemented \<Rightarrow>
                       (case op of
                          Eq \<Rightarrow> Inr (py_is v w)
                        | Ne \<Rightarrow> Inr (\<not> py_is v w)
                        | _ \<Rightarrow> Inl TypeError))))"
  by pat_completeness auto
termination
  by (relation "measure (\<lambda>x. case x of
        Inl (op, g, v, w) \<Rightarrow> 2 * is_derived_op op
      | Inr (op, g, v, w) \<Rightarrow> 2 * is_derived_op op + 1)")
    (auto, (case_tac op; simp)+)

section \<open>Dumping form ids\<close>

text \<open>
  The method \<open>dump\<close>: \<open>FormId.dump\<close> calls \<open>short_mapper\<close> (calling \<open>None\<close> raises
  \<open>TypeError\<close>), \<open>_Tes4Fid\<close>, \<open>_DummyFid\<close> and \<open>_NoneFid\<close> define their own; integers,
  byte strings and \<open>None\<close> have no such attribute.
\<close>

definition dump :: "'n globals \<Rightarrow> 'n pyobj \<Rightarrow> py_error + int" where
  "dump g obj =
     (case obj of
        PFid f \<Rightarrow>
          (case fid_cls f of
             Tes4Fid \<Rightarrow> Inr 0
           | DummyFid \<Rightarrow> Inl NotImplementedError
           | _ \<Rightarrow>
               (case short_mapper g of
                  None \<Rightarrow> Inl TypeError
                | Some sm \<Rightarrow> sm (PFid f)))
      | PNoneFid \<Rightarrow> Inr 0xFFFFFFFF
      | _ \<Rightarrow> Inl AttributeError)"

text \<open>The module's instances \<open>ZERO_FID\<close> and \<open>DUMMY_FID\<close>.\<close>

definition ZERO_FID :: "'n formid" where
  "ZERO_FID = FormId Tes4Fid 0"

definition DUMMY_FID :: "'n formid" where
  "DUMMY_FID = FormId DummyFid 0"

section \<open>Flags\<close>

text \<open>
  Modelled from the spec: the class \<open>Flags\<close> of \<open>bolt\<close>, base class of \<open>_SpellFlags\<close>,
  is not among the modelled files. The spec describes it as a bitflag set addressed by
  bit index over a backing integer; \<open>Flags.__setitem__(index, value)\<close> is therefore the
  write of one bit of the backing integer \<open>_field\<close>: the bit at \<open>index\<close> is cleared
  and, when \<open>value\<close> is true, set.
\<close>

definition Flags_setitem :: "int \<Rightarrow> nat \<Rightarrow> bool \<Rightarrow> int" where
  "Flags_setitem field index v =
     (field AND NOT (push_bit index 1)) OR (if v then push_bit index 1 else 0)"

text \<open>\<open>_SpellFlags.__setitem__\<close>, on the backing integer.\<close>

definition SpellFlags_setitem :: "int \<Rightarrow> nat \<Rightarrow> bool \<Rightarrow> int" where
  "SpellFlags_setitem field index v =
     (let field1 = Flags_setitem field index v
      in if index = 1 then Flags_setitem field1 3 v else field1)"

section \<open>Subrecords\<close>

subsection \<open>MelRaceVoices\<close>

text \<open>The attributes of a record that \<open>MelRaceVoices\<close> reads and writes.\<close>

record 'n race_record =
  fid :: "'n pyobj"
  maleVoice :: "'n pyobj"
  femaleVoice :: "'n pyobj"

text \<open>
  \<open>a != b\<close> for two tuples of length two: the items are compared with \<open>==\<close> from the
  left, and the tuples differ as soon as one pair of items does. (The interpreter takes
  two identical items as equal without calling \<open>==\<close>; the right tuple here is
  \<open>(0, 0)\<close>, and an object identical to the integer \<open>0\<close> is equal to it.)
\<close>

definition pair_ne ::
  "'n::linorder globals \<Rightarrow> 'n pyobj \<times> 'n pyobj \<Rightarrow> 'n pyobj \<times> 'n pyobj \<Rightarrow> py_error + bool" where
  "pair_ne g a b =
     (case py_compare Eq g (fst a) (fst b) of
        Inl e \<Rightarrow> Inl e
      | Inr False \<Rightarrow> Inr True
      | Inr True \<Rightarrow>
          (case py_compare Eq g (snd a) (snd b) of
             Inl e \<Rightarrow> Inl e
           | Inr eq2 \<Rightarrow> Inr (\<not> eq2)))"

text \<open>
  \<open>MelRaceVoices.pack_subrecord_data\<close>. The method assigns to the record before it
  returns or raises, so the model returns the record as well. \<open>super_pack\<close> is
  \<open>MelStruct.pack_subrecord_data\<close>, which is not part of the modelled files.
\<close>

definition MelRaceVoices_pack_subrecord_data ::
  "('n race_record \<Rightarrow> py_error + 8 word list option) \<Rightarrow> 'n::linorder globals \<Rightarrow>
   'n race_record \<Rightarrow> 'n race_record \<times> (py_error + 8 word list option)" where
  "MelRaceVoices_pack_subrecord_data super_pack g record =
     (case py_compare Eq g (maleVoice record) (fid record) of
        Inl e \<Rightarrow> (record, Inl e)
      | Inr male_is_self \<Rightarrow>
          (let record1 = (if male_is_self then record\<lparr>maleVoice := PInt 0\<rparr> else record)
           in case py_compare Eq g (femaleVoice record1) (fid record1) of
                Inl e \<Rightarrow> (record1, Inl e)
              | Inr female_is_self \<Rightarrow>
                  (let record2 = (if female_is_self then record1\<lparr>femaleVoice := PInt 0\<rparr>
                                  else record1)
                   in case pair_ne g (maleVoice record2, femaleVoice record2)
                             (PInt 0, PInt 0) of
                        Inl e \<Rightarrow> (record2, Inl e)
                      | Inr True \<Rightarrow> (record2, super_pack record2)
                      | Inr False \<Rightarrow> (record2, Inr None))))"

subsection \<open>MelMODS\<close>






subsection \<open>MelDebrData\<close>

definition null1 :: "8 word list" where
  "null1 = [0]"

text \<open>A slice \<open>xs[start:stop]\<close> with Python's clamping of both bounds.\<close>

definition py_slice :: "'a list \<Rightarrow> int \<Rightarrow> int \<Rightarrow> 'a list" where
  "py_slice xs start stop =
     (let n = int (length xs);
          clamp = (\<lambda>i. if i < 0 then max (i + n) 0 else min i n)
      in drop (nat (clamp start)) (take (nat (clamp stop)) xs))"

record debr_record =
  percentage :: int
  modPath :: "8 word list"
  flags :: int

text \<open>
  \<open>MelDebrData.load_mel\<close>. \<open>read_result\<close> is the outcome of \<open>ins.read(size_, ...)\<close>;
  \<open>unpack_byte\<close> stands for \<^verbatim>\<open>unpack_byte(ins, b)[0]\<close> and \<open>struct_unpack_B\<close> for
  \<^verbatim>\<open>struct_unpack('B', x)[0]\<close>, both helpers of \<open>bolt\<close> that are not part of the
  modelled files. Indexing a byte string gives an integer, which is compared with the
  byte string \<open>null1\<close>. The assignments before a raise stay, so the record is returned
  in both cases.
\<close>

definition MelDebrData_load_mel ::
  "(8 word list \<Rightarrow> py_error + int) \<Rightarrow> (int \<Rightarrow> py_error + int) \<Rightarrow> 'n::linorder globals \<Rightarrow>
   debr_record \<Rightarrow> py_error + 8 word list \<Rightarrow> debr_record \<times> (py_error + unit)" where
  "MelDebrData_load_mel unpack_byte struct_unpack_B g record read_result =
     (case read_result of
        Inl e \<Rightarrow> (record, Inl e)
      | Inr byte_data \<Rightarrow>
          (case unpack_byte (py_slice byte_data 0 1) of
             Inl e \<Rightarrow> (record, Inl e)
           | Inr p \<Rightarrow>
               (let record1 = record\<lparr>percentage := p\<rparr>;
                    record2 = record1\<lparr>modPath := py_slice byte_data 1 (- 2)\<rparr>
                in case py_getitem byte_data (- 2) of
                     Inl e \<Rightarrow> (record2, Inl e)
                   | Inr b \<Rightarrow>
                       (case py_compare Ne g (PInt (uint b)) (PBytes null1) of
                          Inl e \<Rightarrow> (record2, Inl e)
                        | Inr True \<Rightarrow> (record2, Inl ModError)
                        | Inr False \<Rightarrow>
                            (case py_getitem byte_data (- 1) of
                               Inl e \<Rightarrow> (record2, Inl e)
                             | Inr b' \<Rightarrow>
                                 (case struct_unpack_B (uint b') of
                                    Inl e \<Rightarrow> (record2, Inl e)
                                  | Inr fl \<Rightarrow> (record2\<lparr>flags := fl\<rparr>, Inr ())))))))"


section \<open>Two sessions for the examples\<close>

text \<open>
  \<open>load_session\<close>: no plugin is being written, \<open>short_mapper\<close> is \<open>None\<close>.
  \<open>dump_session\<close>: a plugin is being written and \<open>short_mapper\<close> sends a form id to
  its short integer. In both the game's master record resolves to \<open>(Skyrim.esm, 0)\<close>.
\<close>

definition load_session :: "string globals" where
  "load_session = \<lparr>short_mapper = None, master_long = Inr (LTuple ''Skyrim.esm'' 0)\<rparr>"

definition dump_session :: "string globals" where
  "dump_session =
     \<lparr>short_mapper = Some (\<lambda>obj. case obj of
          PFid f \<Rightarrow> Inr (short_fid f) | _ \<Rightarrow> Inl AttributeError),
      master_long = Inr (LTuple ''Skyrim.esm'' 0)\<rparr>"



section \<open>Resolving short form ids\<close>

lemma cache_inv_empty: "cache_inv Map.empty"
  by (simp add: cache_inv_def)

lemma cache_inv_from_masters:
  "cache_inv cache \<Longrightarrow> cache_inv (snd (from_masters cache ms ov))"
  by (simp add: cache_inv_def from_masters_def Let_def)

lemma cache_inv_miss: "cache_inv cache \<Longrightarrow> cache (Key_pair ms ov) = None"
  by (simp add: cache_inv_def)

lemma from_masters_class:
  "cache (Key_pair ms ov) = None \<Longrightarrow> fst (from_masters cache ms ov) = FormID_masters ms ov"
  by (simp add: from_masters_def Let_def)

text \<open>
  Claim C1. Outside overlay mode, the class that \<open>from_masters\<close> returns for a masters
  tuple \<open>m\<close> resolves every short form id \<open>s\<close> (an unsigned integer) whose master
  index \<open>s >> 24\<close> is below \<open>len(m)\<close> to the long form \<open>(m[s >> 24], s & 0xFFFFFF)\<close>;
  the short id \<open>0x01000003\<close> under the masters \<open>Foo.esm, Bar.esp\<close> resolves to
  \<open>(Bar.esp, 3)\<close>. The class is a new one: the lookup in the class cache misses, as
  it does on every cache that \<open>from_masters\<close> has built (\<open>cache_inv_miss\<close>).
\<close>

theorem from_masters_resolves_short:
  fixes m :: "'n list" and g :: "'n globals" and g' :: "string globals"
  assumes "cache (Key_pair m False) = None" and "0 \<le> s"
    and "drop_bit 24 s < int (length m)"
  shows "long_fid g (FormId (fst (from_masters cache m False)) s)
           = Inr (LTuple (m ! nat (drop_bit 24 s)) (s AND 0xFFFFFF))
       \<and> long_fid g' (FormId (fst (from_masters Map.empty [''Foo.esm'', ''Bar.esp''] False))
           0x01000003) = Inr (LTuple ''Bar.esp'' 3)"
proof
  have nn: "0 \<le> drop_bit 24 s"
    using assms(2) by simp
  show "long_fid g (FormId (fst (from_masters cache m False)) s)
           = Inr (LTuple (m ! nat (drop_bit 24 s)) (s AND 0xFFFFFF))"
    using assms(1) assms(3) nn
    by (simp add: from_masters_class long_fid_def masters_long_try_def
        mod_dex_def py_getitem_def)
  show "long_fid g' (FormId (fst (from_masters Map.empty [''Foo.esm'', ''Bar.esp''] False))
           0x01000003) = Inr (LTuple ''Bar.esp'' 3)"
    by (simp add: from_masters_class long_fid_def masters_long_try_def
        mod_dex_def py_getitem_def drop_bit_eq_div)
qed

theorem from_masters_resolves_short_witness:
  "(Map.empty :: string class_cache) (Key_pair [''Foo.esm'', ''Bar.esp''] False) = None
   \<and> (0::int) \<le> 0x00000800
   \<and> drop_bit 24 (0x00000800::int) < int (length [''Foo.esm'', ''Bar.esp''])
   \<and> long_fid load_session
        (FormId (fst (from_masters Map.empty [''Foo.esm'', ''Bar.esp''] False)) 0x00000800)
      = Inr (LTuple ''Foo.esm'' 0x800)"
  using from_masters_resolves_short
    [where cache = "Map.empty :: string class_cache" and s = "0x00000800"
      and m = "[''Foo.esm'', ''Bar.esp'']" and g = load_session]
  by (simp add: drop_bit_eq_div)

text \<open>
  Claim C2, as amended. A plain \<open>FormId\<close> (the base class, no master list) does not
  raise when asked for its long form: \<open>long_fid\<close> returns the short integer unchanged.
  It is \<open>mod_fn\<close>, which needs the long form to be a tuple, that raises
  \<open>StateError\<close>.
\<close>

theorem plain_formid_long_fid_unmapped:
  "long_fid g (FormId FormId_base s) = Inr (LInt s)
   \<and> mod_fn g (FormId FormId_base s) = Inl StateError"
  by (simp add: long_fid_def mod_fn_def)

text \<open>
  Against claim C2 as stated: the long form of the plain \<open>FormId(0x01000003)\<close> is the
  integer \<open>0x01000003\<close>, not a \<open>StateError\<close>.
\<close>

theorem plain_formid_long_fid_counterexample:
  "long_fid load_session (FormId FormId_base 0x01000003) = Inr (LInt 0x01000003)
   \<and> long_fid load_session (FormId FormId_base 0x01000003) \<noteq> Inl StateError"
  by (simp add: long_fid_def)

lemma low_24_bits: "(s::int) AND 0xFFFFFF = s mod 2 ^ 24"
proof -
  have "(0xFFFFFF::int) = mask 24"
    by (simp add: mask_eq_exp_minus_1)
  then show ?thesis
    by (simp only: flip: take_bit_eq_mask take_bit_eq_mod)
qed

text \<open>
  Claim C9. \<open>is_null\<close> is true exactly when the low 24 bits of the short form (the
  object index) are zero, whatever the master-index byte: \<open>0x01000000\<close> is null as
  \<open>0\<close> is, \<open>0x00000001\<close> is not.
\<close>

theorem is_null_low_24_bits:
  "is_null f = (short_fid f mod 2 ^ 24 = 0)
   \<and> is_null (FormId c 0x01000000) \<and> is_null (FormId c 0)
   \<and> \<not> is_null (FormId c 0x00000001)"
  by (simp add: is_null_def object_dex_def low_24_bits)

section \<open>Dumping sentinels\<close>

text \<open>
  Claim C5, as amended. Dumping the dummy default fid raises \<open>NotImplementedError\<close>;
  dumping the NONE sentinel does not raise, it produces \<open>0xFFFFFFFF\<close>.
\<close>

theorem sentinel_dump:
  "dump g (PFid DUMMY_FID) = Inl NotImplementedError
   \<and> dump g (PFid (FormId DummyFid s)) = Inl NotImplementedError
   \<and> dump g PNoneFid = Inr 0xFFFFFFFF"
  by (simp add: dump_def DUMMY_FID_def)

text \<open>
  Against claim C5 as stated: \<open>NONE_FID.dump()\<close> returns \<open>0xFFFFFFFF\<close>, with or
  without a plugin being written.
\<close>

theorem none_fid_dump_counterexample:
  "dump dump_session PNoneFid = Inr 0xFFFFFFFF \<and> dump load_session PNoneFid = Inr 0xFFFFFFFF"
  by (simp add: dump_def)

section \<open>Linked spell flags\<close>

lemma bit_Flags_setitem:
  "bit (Flags_setitem field index v) j = (if j = index then v else bit field j)"
  by (auto simp add: Flags_setitem_def bit_or_iff bit_and_iff bit_not_iff bit_push_bit_iff
      bit_1_iff bit_exp_iff)

text \<open>
  Claim C6. Setting the flag at bit index 1 of a \<open>_SpellFlags\<close> value to \<open>v\<close> sets the
  bits 1 and 3 to \<open>v\<close> and leaves every other bit; setting any other index changes
  that bit only.
\<close>

theorem SpellFlags_setitem_linked:
  "bit (SpellFlags_setitem field 1 v) j = (if j = 1 \<or> j = 3 then v else bit field j)
   \<and> (index \<noteq> 1 \<longrightarrow>
        bit (SpellFlags_setitem field index v) j = (if j = index then v else bit field j))"
  by (simp add: SpellFlags_setitem_def bit_Flags_setitem)

theorem SpellFlags_setitem_linked_witness:
  "bit (SpellFlags_setitem 0 1 True) 3 \<and> bit (SpellFlags_setitem 0 1 True) 1
   \<and> (2::nat) \<noteq> 1 \<and> \<not> bit (SpellFlags_setitem 0 2 True) 3
   \<and> SpellFlags_setitem 0 1 True = 10 \<and> SpellFlags_setitem 10 1 False = 0"
  using SpellFlags_setitem_linked [of 0 True 3 2] SpellFlags_setitem_linked [of 0 True 1 2]
  by (simp add: SpellFlags_setitem_def Flags_setitem_def)

section \<open>The order of the MODS entries\<close>







section \<open>Comparing form ids\<close>

lemma not_subclass_of_other [simp]:
  "is_proper_subclass T_NoneFid t = False" "is_proper_subclass t T_NoneFid = False"
  "is_proper_subclass T_int t = False" "is_proper_subclass t T_int = False"
  "is_proper_subclass T_bytes t = False" "is_proper_subclass t T_bytes = False"
  "is_proper_subclass T_NoneType t = False" "is_proper_subclass t T_NoneType = False"
  by (simp_all add: is_proper_subclass_def split: pytype.splits fid_class.splits)

lemma swapped_cmp_values: "cmp_values (swapped_op op) b a = cmp_values op a b"
  by (cases op) auto

lemma swapped_tuple_cmp: "tuple_cmp (swapped_op op) b a = tuple_cmp op a b"
  by (cases op) (auto simp add: tuple_cmp_def)

lemma swapped_long_cmp: "long_cmp (swapped_op op) v u = long_cmp op u v"
  by (cases u; cases v; cases op) (auto simp add: tuple_cmp_def)

lemma FormId_order_mapped:
  assumes "short_mapper g = Some sm" and "sm (PFid a) = Inr x" and "sm other = Inr y"
  shows "FormId_order op g a other = Inr (RBool (cmp_values op x y))"
  using assms by (simp add: FormId_order_def mapped_cmp_def)

lemma FormId_order_long:
  assumes "short_mapper g = None" and "long_fid g a = Inr u" and "long_fid g b = Inr v"
  shows "FormId_order op g a (PFid b) =
           (case long_cmp op u v of Inl e \<Rightarrow> Inl e | Inr r \<Rightarrow> Inr (RBool r))"
  using assms
  by (cases u; cases v; cases op)
    (simp_all add: FormId_order_def mapped_cmp_def long_pair_cmp_def getattr_long_fid_def)

lemma FormId_richcmp_order:
  "op \<in> {Lt, Le, Gt, Ge} \<Longrightarrow> FormId_richcmp op = FormId_order op"
  by (auto simp add: FormId_lt_def FormId_le_def FormId_gt_def FormId_ge_def)

lemma swapped_op_order: "op \<in> {Lt, Le, Gt, Ge} \<Longrightarrow> swapped_op op \<in> {Lt, Le, Gt, Ge}"
  by auto

lemma py_compare_fids_mapped:
  assumes op: "op \<in> {Lt, Le, Gt, Ge}"
    and "short_mapper g = Some sm" and "sm (PFid a) = Inr x" and "sm (PFid b) = Inr y"
  shows "py_compare op g (PFid a) (PFid b) = Inr (cmp_values op x y)"
proof -
  have fwd: "tp_richcompare op g (PFid a) (PFid b) = Inr (RBool (cmp_values op x y))"
    using assms by (simp add: FormId_richcmp_order FormId_order_mapped)
  have bwd: "tp_richcompare (swapped_op op) g (PFid b) (PFid a) = Inr (RBool (cmp_values op x y))"
    using assms(2-) swapped_op_order [OF op]
    by (simp add: FormId_richcmp_order FormId_order_mapped swapped_cmp_values)
  show ?thesis
    by (simp add: Let_def fwd bwd del: tp_richcompare.simps)
qed

lemma py_compare_fids_long:
  assumes op: "op \<in> {Lt, Le, Gt, Ge}"
    and "short_mapper g = None" and "long_fid g a = Inr u" and "long_fid g b = Inr v"
  shows "py_compare op g (PFid a) (PFid b) = long_cmp op u v"
proof -
  have fwd: "tp_richcompare op g (PFid a) (PFid b)
      = (case long_cmp op u v of Inl e \<Rightarrow> Inl e | Inr r \<Rightarrow> Inr (RBool r))"
    using assms by (simp add: FormId_richcmp_order FormId_order_long)
  have bwd: "tp_richcompare (swapped_op op) g (PFid b) (PFid a)
      = (case long_cmp op u v of Inl e \<Rightarrow> Inl e | Inr r \<Rightarrow> Inr (RBool r))"
    using assms(2-) swapped_op_order [OF op]
    by (simp add: FormId_richcmp_order FormId_order_long swapped_long_cmp)
  show ?thesis
    by (cases "long_cmp op u v") (simp_all add: Let_def fwd bwd del: tp_richcompare.simps)
qed

text \<open>
  Claim C3. For two form ids \<open>a\<close> and \<open>b\<close> and each of the operators \<open><\<close>, \<open><=\<close>,
  \<open>>\<close>, \<open>>=\<close>: when a dump-time resolver \<open>short_mapper\<close> is active (and gives a short
  form for both), \<open>a OP b\<close> is \<open>short_mapper(a) OP short_mapper(b)\<close>; when none is
  active (and both long forms resolve), \<open>a OP b\<close> is \<open>a.long_fid OP b.long_fid\<close>, the
  comparison of the two long values as Python evaluates it.
\<close>

theorem FormId_ordering_dichotomy:
  assumes "op \<in> {Lt, Le, Gt, Ge}"
  shows "(short_mapper g = Some sm \<longrightarrow> sm (PFid a) = Inr x \<longrightarrow> sm (PFid b) = Inr y \<longrightarrow>
            py_compare op g (PFid a) (PFid b) = Inr (cmp_values op x y))
       \<and> (short_mapper g = None \<longrightarrow> long_fid g a = Inr u \<longrightarrow> long_fid g b = Inr v \<longrightarrow>
            py_compare op g (PFid a) (PFid b) = long_cmp op u v)"
  using assms py_compare_fids_mapped [of op g sm a x b y] py_compare_fids_long [of op g a u b v]
  by blast

theorem FormId_ordering_dichotomy_witness:
  "Lt \<in> {Lt, Le, Gt, Ge}
   \<and> short_mapper dump_session = Some (\<lambda>obj. case obj of
        PFid f \<Rightarrow> Inr (short_fid f) | _ \<Rightarrow> Inl AttributeError)
   \<and> py_compare Lt dump_session (PFid (FormId (FormId_tuple ''B.esp'') 1))
        (PFid (FormId (FormId_tuple ''A.esp'') 2)) = Inr True
   \<and> short_mapper load_session = None
   \<and> long_fid load_session (FormId (FormId_tuple ''B.esp'') 1) = Inr (LTuple ''B.esp'' 1)
   \<and> long_fid load_session (FormId (FormId_tuple ''A.esp'') 2) = Inr (LTuple ''A.esp'' 2)
   \<and> py_compare Lt load_session (PFid (FormId (FormId_tuple ''B.esp'') 1))
        (PFid (FormId (FormId_tuple ''A.esp'') 2)) = Inr False"
  using
    FormId_ordering_dichotomy [of Lt dump_session
      "\<lambda>obj. case obj of PFid f \<Rightarrow> Inr (short_fid f) | _ \<Rightarrow> Inl AttributeError"
      "FormId (FormId_tuple ''B.esp'') 1" 1 "FormId (FormId_tuple ''A.esp'') 2" 2]
    FormId_ordering_dichotomy [of Lt load_session _ "FormId (FormId_tuple ''B.esp'') 1" _
      "FormId (FormId_tuple ''A.esp'') 2" _ "LTuple ''B.esp'' 1" "LTuple ''A.esp'' 2"]
  by (simp add: dump_session_def load_session_def long_fid_def tuple_cmp_def
      del: py_compare.simps)

section \<open>The NONE sentinel\<close>






section \<open>Race voices\<close>

lemma py_compare_int_int_eq: "py_compare Eq g (PInt a) (PInt b) = Inr (a = b)"
  by (simp add: int_richcmp_def)

text \<open>
  Claim C7. \<open>MelRaceVoices.pack_subrecord_data\<close> normalizes before it dumps. Provided
  the comparisons with \<open>==\<close> evaluate: a \<open>maleVoice\<close> or \<open>femaleVoice\<close> equal to the
  record's own \<open>fid\<close> is set to \<open>0\<close> in the record (and is then zero); when both voices
  are then equal to \<open>0\<close> the method returns \<open>None\<close>; otherwise it returns what
  \<open>MelStruct.pack_subrecord_data\<close> produces for the normalized record.
\<close>

theorem MelRaceVoices_normalizes:
  assumes "py_compare Eq g (maleVoice r) (fid r) = Inr male_self"
    and "py_compare Eq g (femaleVoice r) (fid r) = Inr female_self"
    and "py_compare Eq g (if male_self then PInt 0 else maleVoice r) (PInt 0) = Inr male_zero"
    and "py_compare Eq g (if female_self then PInt 0 else femaleVoice r) (PInt 0)
           = Inr female_zero"
  shows "MelRaceVoices_pack_subrecord_data super_pack g r =
          (let r' = r\<lparr>maleVoice := (if male_self then PInt 0 else maleVoice r),
                       femaleVoice := (if female_self then PInt 0 else femaleVoice r)\<rparr>
           in (r', if male_zero \<and> female_zero then Inr None else super_pack r'))
       \<and> (male_self \<longrightarrow> male_zero) \<and> (female_self \<longrightarrow> female_zero)"
  using assms
  by (cases male_self; cases female_self; cases male_zero; cases female_zero)
    (simp_all add: MelRaceVoices_pack_subrecord_data_def pair_ne_def py_compare_int_int_eq
      del: py_compare.simps)

theorem MelRaceVoices_normalizes_witness:
  "py_compare Eq load_session (PFid (FormId (FormId_tuple ''Skyrim.esm'') 0x13746))
      (PFid (FormId (FormId_tuple ''Skyrim.esm'') 0x13746)) = Inr True
   \<and> py_compare Eq load_session (PFid (FormId (FormId_tuple ''Skyrim.esm'') 0x13747))
      (PFid (FormId (FormId_tuple ''Skyrim.esm'') 0x13746)) = Inr False
   \<and> py_compare Eq load_session (PInt 0) (PInt 0) = Inr True
   \<and> py_compare Eq load_session (PFid (FormId (FormId_tuple ''Skyrim.esm'') 0x13747)) (PInt 0)
      = Inr False
   \<and> MelRaceVoices_pack_subrecord_data (\<lambda>r. Inr (Some [1])) load_session
        \<lparr>fid = PFid (FormId (FormId_tuple ''Skyrim.esm'') 0x13746),
         maleVoice = PFid (FormId (FormId_tuple ''Skyrim.esm'') 0x13746),
         femaleVoice = PFid (FormId (FormId_tuple ''Skyrim.esm'') 0x13747)\<rparr>
      = (\<lparr>fid = PFid (FormId (FormId_tuple ''Skyrim.esm'') 0x13746),
          maleVoice = PInt 0,
          femaleVoice = PFid (FormId (FormId_tuple ''Skyrim.esm'') 0x13747)\<rparr>,
         Inr (Some [1]))"
  using MelRaceVoices_normalizes [where g = load_session
      and r = "\<lparr>fid = PFid (FormId (FormId_tuple ''Skyrim.esm'') 0x13746),
         maleVoice = PFid (FormId (FormId_tuple ''Skyrim.esm'') 0x13746),
         femaleVoice = PFid (FormId (FormId_tuple ''Skyrim.esm'') 0x13747)\<rparr>"
      and male_self = True and female_self = False and male_zero = True
      and female_zero = False and super_pack = "\<lambda>r. Inr (Some [1])"]
  by (simp add: load_session_def FormId_eq_def FormId_eq_ne_def long_pair_cmp_def
      getattr_long_fid_def long_fid_def long_vs_other_def tuple_cmp_def int_richcmp_def
      py_is_def is_proper_subclass_def)

section \<open>Debris data\<close>

lemma py_compare_int_bytes_ne: "py_compare Ne g (PInt a) (PBytes b) = Inr True"
  by (simp add: int_richcmp_def bytes_richcmp_def py_is_def)

lemma py_slice_0_1: "py_slice xs 0 1 = take 1 xs"
  by (cases xs) (simp_all add: py_slice_def)

lemma py_slice_1_m2: "py_slice xs 1 (- 2) = drop 1 (take (length xs - 2) xs)"
  by (cases xs) (auto simp add: py_slice_def Let_def max_def min_def nat_diff_distrib')

text \<open>
  Whatever the chunk holds at \<open>[-2]\<close>, the check raises: an integer is never equal to a
  byte string. \<open>percentage\<close> and \<open>modPath\<close> have been assigned by then, \<open>flags\<close> has
  not.
\<close>

lemma MelDebrData_load_mel_raises:
  assumes "2 \<le> length byte_data" and "unpack_byte (take 1 byte_data) = Inr p"
  shows "MelDebrData_load_mel unpack_byte struct_unpack_B g record (Inr byte_data)
           = (record\<lparr>percentage := p,
                      modPath := drop 1 (take (length byte_data - 2) byte_data)\<rparr>,
              Inl ModError)"
  using assms
  by (simp add: MelDebrData_load_mel_def py_slice_0_1 py_slice_1_m2 py_getitem_def
      py_compare_int_bytes_ne del: py_compare.simps)


end
